theory Spec2Isabelle
  imports Complex_Main
begin

section \<open>JavaScript numbers\<close>

text \<open>
  Every number of \<^verbatim>\<open>script.js\<close> is an IEEE 754 double. The model keeps the special
  values the script can produce (the two zeros, the two infinities, not-a-number) and
  the rules by which the arithmetic operators make and propagate them. A finite,
  nonzero result is the exact real result: rounding, overflow and underflow of finite
  values are not part of the model, and neither is the narrowing to single precision
  that \<^verbatim>\<open>Float32Array\<close> does. \<open>Fin 0\<close> is the positive zero, \<open>NegZero\<close> the
  negative one.
\<close>

datatype jsnum = Fin real | NegZero | PInf | NInf | NaN

text \<open>The real number a finite value stands for; both zeros stand for 0.\<close>

fun real_of :: "jsnum \<Rightarrow> real option" where
  "real_of (Fin r) = Some r"
| "real_of NegZero = Some 0"
| "real_of PInf = None"
| "real_of NInf = None"
| "real_of NaN = None"

definition is_zero :: "jsnum \<Rightarrow> bool" where
  "is_zero x = (x = Fin 0 \<or> x = NegZero)"

definition is_inf :: "jsnum \<Rightarrow> bool" where
  "is_inf x = (x = PInf \<or> x = NInf)"

fun sign_bit :: "jsnum \<Rightarrow> bool" where
  "sign_bit (Fin r) = (r < 0)"
| "sign_bit NegZero = True"
| "sign_bit PInf = False"
| "sign_bit NInf = True"
| "sign_bit NaN = False"

fun magnitude :: "jsnum \<Rightarrow> real" where
  "magnitude (Fin r) = r"
| "magnitude NegZero = 0"
| "magnitude PInf = 0"
| "magnitude NInf = 0"
| "magnitude NaN = 0"

definition zero_of :: "bool \<Rightarrow> jsnum" where
  "zero_of negative = (if negative then NegZero else Fin 0)"

definition inf_of :: "bool \<Rightarrow> jsnum" where
  "inf_of negative = (if negative then NInf else PInf)"

text \<open>Unary minus flips the sign, also of a zero and of an infinity.\<close>

instantiation jsnum :: uminus
begin

fun uminus_jsnum :: "jsnum \<Rightarrow> jsnum" where
  "- Fin r = (if r = 0 then NegZero else Fin (- r))"
| "- NegZero = Fin 0"
| "- PInf = NInf"
| "- NInf = PInf"
| "- NaN = NaN"

instance ..

end

text \<open>
  Addition: not-a-number absorbs, opposite infinities cancel to not-a-number, an
  infinity absorbs every finite value, and a sum of zeros is the negative zero only when
  both are.
\<close>

instantiation jsnum :: plus
begin

fun plus_jsnum :: "jsnum \<Rightarrow> jsnum \<Rightarrow> jsnum" where
  "NaN + y = NaN"
| "x + NaN = NaN"
| "PInf + NInf = NaN"
| "NInf + PInf = NaN"
| "PInf + y = PInf"
| "x + PInf = PInf"
| "NInf + y = NInf"
| "x + NInf = NInf"
| "NegZero + y = y"
| "x + NegZero = x"
| "Fin a + Fin b = Fin (a + b)"

instance ..

end

text \<open>Subtraction is addition of the negated right operand, as IEEE 754 has it.\<close>

instantiation jsnum :: minus
begin

definition minus_jsnum :: "jsnum \<Rightarrow> jsnum \<Rightarrow> jsnum" where
  "x - y = x + (- y :: jsnum)"

instance ..

end

text \<open>
  Multiplication: the sign of the result is the exclusive or of the signs; an infinity
  times a zero is not-a-number.
\<close>

instantiation jsnum :: times
begin

definition times_jsnum :: "jsnum \<Rightarrow> jsnum \<Rightarrow> jsnum" where
  "x * y =
    (if x = (NaN :: jsnum) \<or> y = NaN then NaN
     else if is_inf x \<or> is_inf y then
       (if is_zero x \<or> is_zero y then NaN else inf_of (sign_bit x \<noteq> sign_bit y))
     else if is_zero x \<or> is_zero y then zero_of (sign_bit x \<noteq> sign_bit y)
     else Fin (magnitude x * magnitude y))"

instance ..

end

text \<open>
  Division never raises: a zero divided by a zero and an infinity divided by an infinity
  are not-a-number, any other value divided by a zero is an infinity, and a finite value
  divided by an infinity is a zero.
\<close>

instantiation jsnum :: divide
begin

definition divide_jsnum :: "jsnum \<Rightarrow> jsnum \<Rightarrow> jsnum" where
  "x div y =
    (if x = (NaN :: jsnum) \<or> y = NaN then NaN
     else if is_inf x then
       (if is_inf y then NaN else inf_of (sign_bit x \<noteq> sign_bit y))
     else if is_inf y then zero_of (sign_bit x \<noteq> sign_bit y)
     else if is_zero y then
       (if is_zero x then NaN else inf_of (sign_bit x \<noteq> sign_bit y))
     else if is_zero x then zero_of (sign_bit x \<noteq> sign_bit y)
     else Fin (magnitude x / magnitude y))"

instance ..

end

text \<open>\<^verbatim>\<open>Math.sqrt\<close>: not-a-number below zero, the argument itself at a zero or at infinity.\<close>

fun Math_sqrt :: "jsnum \<Rightarrow> jsnum" where
  "Math_sqrt (Fin r) = (if r < 0 then NaN else Fin (sqrt r))"
| "Math_sqrt NegZero = NegZero"
| "Math_sqrt PInf = PInf"
| "Math_sqrt NInf = NaN"
| "Math_sqrt NaN = NaN"

text \<open>The exponentiation \<^verbatim>\<open>x ** 2\<close>: an even power loses the sign.\<close>

fun pow2 :: "jsnum \<Rightarrow> jsnum" where
  "pow2 (Fin r) = Fin (r * r)"
| "pow2 NegZero = Fin 0"
| "pow2 PInf = PInf"
| "pow2 NInf = PInf"
| "pow2 NaN = NaN"

section \<open>Arrays\<close>

text \<open>
  An array is a list. Reading past the end gives \<^verbatim>\<open>undefined\<close>, which every use in
  the script converts to a number, that is to not-a-number. Writing at the end extends the
  array; the holes a write further out would leave read as \<^verbatim>\<open>undefined\<close> too.
\<close>

definition idx :: "jsnum list \<Rightarrow> nat \<Rightarrow> jsnum" where
  "idx xs i = (if i < length xs then xs ! i else NaN)"

definition array_set :: "jsnum list \<Rightarrow> nat \<Rightarrow> jsnum \<Rightarrow> jsnum list" where
  "array_set xs i v =
    (if i < length xs then xs[i := v] else xs @ replicate (i - length xs) NaN @ [v])"

section \<open>Vector math\<close>

definition normalize_v :: "jsnum list \<Rightarrow> jsnum list" where
  "normalize_v v =
    (let len = Math_sqrt (pow2 (idx v 0) + pow2 (idx v 1) + pow2 (idx v 2))
     in map (\<lambda>x. x div len) v)"

definition subtract :: "jsnum list \<Rightarrow> jsnum list \<Rightarrow> jsnum list" where
  "subtract a b = [idx a 0 - idx b 0, idx a 1 - idx b 1, idx a 2 - idx b 2]"

definition cross :: "jsnum list \<Rightarrow> jsnum list \<Rightarrow> jsnum list" where
  "cross a b =
    [idx a 1 * idx b 2 - idx a 2 * idx b 1,
     idx a 2 * idx b 0 - idx a 0 * idx b 2,
     idx a 0 * idx b 1 - idx a 1 * idx b 0]"

definition dot :: "jsnum list \<Rightarrow> jsnum list \<Rightarrow> jsnum" where
  "dot a b = idx a 0 * idx b 0 + idx a 1 * idx b 1 + idx a 2 * idx b 2"

section \<open>Matrix builders\<close>

text \<open>
  Both return the sixteen elements of a 4x4 matrix, one column after the other. The source
  wraps them in a \<^verbatim>\<open>Float32Array\<close>, which rounds each element to single precision;
  the model returns the elements as computed, before that narrowing. The elements 0, -0, 1,
  the infinities and not-a-number pass through the narrowing unchanged.
\<close>

definition lookAt :: "jsnum list \<Rightarrow> jsnum list \<Rightarrow> jsnum list \<Rightarrow> jsnum list" where
  "lookAt eye_p at_p up_p =
    (let zAxis = normalize_v (subtract eye_p at_p);
         xAxis = normalize_v (cross up_p zAxis);
         yAxis = cross zAxis xAxis
     in [idx xAxis 0, idx yAxis 0, idx zAxis 0, Fin 0,
         idx xAxis 1, idx yAxis 1, idx zAxis 1, Fin 0,
         idx xAxis 2, idx yAxis 2, idx zAxis 2, Fin 0,
         - dot xAxis eye_p, - dot yAxis eye_p, - dot zAxis eye_p, Fin 1])"

definition ortho :: "jsnum \<Rightarrow> jsnum \<Rightarrow> jsnum \<Rightarrow> jsnum \<Rightarrow> jsnum \<Rightarrow> jsnum \<Rightarrow> jsnum list" where
  "ortho left right bottom top' near far =
    [Fin 2 div (right - left), Fin 0, Fin 0, Fin 0,
     Fin 0, Fin 2 div (top' - bottom), Fin 0, Fin 0,
     Fin 0, Fin 0, Fin (- 2) div (far - near), Fin 0,
     (- (right + left)) div (right - left), (- (top' + bottom)) div (top' - bottom),
       (- (far + near)) div (far - near), Fin 1]"

section \<open>What the graphics pipeline does with a matrix\<close>

text \<open>
  The vertex shader of the script computes
  \<^verbatim>\<open>uProjectionMatrix * uModelViewMatrix * vec4(aPosition, 1.0)\<close>, and both matrices
  are uploaded with \<^verbatim>\<open>transpose = false\<close>: elements 4j .. 4j+3 of the array are column j.
  \<open>mat_vec\<close> is that product of a 4x4 matrix and a 4-vector, and \<open>homogeneous_divide\<close>
  the division of a clip-space vector by its fourth component.
\<close>

definition mat_vec :: "jsnum list \<Rightarrow> jsnum list \<Rightarrow> jsnum list" where
  "mat_vec m v =
    [idx m 0 * idx v 0 + idx m 4 * idx v 1 + idx m 8 * idx v 2 + idx m 12 * idx v 3,
     idx m 1 * idx v 0 + idx m 5 * idx v 1 + idx m 9 * idx v 2 + idx m 13 * idx v 3,
     idx m 2 * idx v 0 + idx m 6 * idx v 1 + idx m 10 * idx v 2 + idx m 14 * idx v 3,
     idx m 3 * idx v 0 + idx m 7 * idx v 1 + idx m 11 * idx v 2 + idx m 15 * idx v 3]"

definition homogeneous_divide :: "jsnum list \<Rightarrow> jsnum list" where
  "homogeneous_divide v = map (\<lambda>x. x div idx v 3) v"

section \<open>Camera state, render procedure and input handler\<close>

text \<open>
  The script's mutable globals are \<^verbatim>\<open>zoom\<close> and the arrays \<^verbatim>\<open>eye\<close>,
  \<^verbatim>\<open>at\<close> and \<^verbatim>\<open>up\<close>. What \<^verbatim>\<open>render\<close> does to the graphics context is kept
  as the sequence of calls it issues; the one-time set-up of shaders, buffer and
  attributes that precedes the first render is not recorded.
\<close>

datatype uniform = UProjectionMatrix | UModelViewMatrix

datatype gl_call =
    ClearColor jsnum jsnum jsnum jsnum
  | Clear_COLOR_BUFFER_BIT
  | UniformMatrix4fv uniform bool "jsnum list"
  | DrawArrays_TRIANGLES nat nat

record state =
  zoom :: jsnum
  eye :: "jsnum list"
  at_v :: "jsnum list"
  up :: "jsnum list"
  gl :: "gl_call list"

text \<open>The two matrices \<^verbatim>\<open>render\<close> computes from the globals.\<close>

definition modelViewMatrix :: "state \<Rightarrow> jsnum list" where
  "modelViewMatrix s = lookAt (eye s) (at_v s) (up s)"

definition projectionMatrix :: "state \<Rightarrow> jsnum list" where
  "projectionMatrix s =
    ortho (- zoom s) (zoom s) (- zoom s) (zoom s) (Fin (- 10)) (Fin 10)"

definition render :: "state \<Rightarrow> state" where
  "render s =
    s\<lparr>gl := gl s @
      [ClearColor (Fin 0) (Fin 0) (Fin 0) (Fin 1),
       Clear_COLOR_BUFFER_BIT,
       UniformMatrix4fv UModelViewMatrix False (modelViewMatrix s),
       UniformMatrix4fv UProjectionMatrix False (projectionMatrix s),
       DrawArrays_TRIANGLES 0 3]\<rparr>"

text \<open>
  The handler of the slider's input event. \<^verbatim>\<open>parseFloat\<close> is the platform's function
  from strings to numbers and \<open>v\<close> the string \<^verbatim>\<open>event.target.value\<close>.
\<close>

definition oninput :: "(string \<Rightarrow> jsnum) \<Rightarrow> string \<Rightarrow> state \<Rightarrow> state" where
  "oninput parseFloat v s =
    (let s1 = s\<lparr>zoom := parseFloat v\<rparr>;
         s2 = s1\<lparr>eye := array_set (eye s1) 2 (zoom s1)\<rparr>
     in render s2)"

text \<open>The globals as the script initialises them, and the state after the initial render.\<close>

definition initial :: state where
  "initial =
    \<lparr>zoom = Fin 5,
     eye = [Fin 0, Fin 0, Fin 5],
     at_v = [Fin 0, Fin 0, Fin 0],
     up = [Fin 0, Fin 1, Fin 0],
     gl = []\<rparr>"

definition loaded :: state where
  "loaded = render initial"

text \<open>The states the page can be in: loaded, then any number of input events.\<close>

inductive reachable :: "state \<Rightarrow> bool" where
  reachable_loaded: "reachable loaded"
| reachable_input: "reachable s \<Longrightarrow> reachable (oninput parseFloat v s)"

text \<open>The value a uniform holds after a sequence of calls: the last one uploaded to it.\<close>

fun uniform_value :: "uniform \<Rightarrow> gl_call list \<Rightarrow> jsnum list option" where
  "uniform_value u [] = None"
| "uniform_value u (c # cs) =
    (case uniform_value u cs of
       Some m \<Rightarrow> Some m
     | None \<Rightarrow> (case c of
         UniformMatrix4fv u' t m \<Rightarrow> if u' = u then Some m else None
       | _ \<Rightarrow> None))"

section \<open>Evaluating the arithmetic\<close>

lemma times_Fin_Fin:
  "Fin a * Fin b =
    (if a = 0 \<or> b = 0 then zero_of ((a < 0) \<noteq> (b < 0)) else Fin (a * b))"
  by (simp add: times_jsnum_def is_zero_def is_inf_def)

lemma times_special:
  "NaN * x = NaN" "x * NaN = NaN"
  "NegZero * Fin b = zero_of (\<not> b < 0)" "Fin a * NegZero = zero_of (\<not> a < 0)"
  "NegZero * NegZero = Fin 0"
  "PInf * Fin b = (if b = 0 then NaN else inf_of (b < 0))"
  "NInf * Fin b = (if b = 0 then NaN else inf_of (\<not> b < 0))"
  "Fin a * PInf = (if a = 0 then NaN else inf_of (a < 0))"
  "Fin a * NInf = (if a = 0 then NaN else inf_of (\<not> a < 0))"
  "PInf * NegZero = NaN" "NInf * NegZero = NaN" "NegZero * PInf = NaN" "NegZero * NInf = NaN"
  "PInf * PInf = PInf" "PInf * NInf = NInf" "NInf * PInf = NInf" "NInf * NInf = PInf"
  by (simp_all add: times_jsnum_def is_zero_def is_inf_def zero_of_def inf_of_def)

lemma divide_Fin_Fin:
  "Fin a div Fin b =
    (if b = 0 then (if a = 0 then NaN else inf_of (a < 0))
     else if a = 0 then zero_of (b < 0) else Fin (a / b))"
  by (simp add: divide_jsnum_def is_zero_def is_inf_def)

lemma divide_special:
  "NaN div x = NaN" "x div NaN = NaN"
  "NegZero div Fin b = (if b = 0 then NaN else zero_of (\<not> b < 0))"
  "Fin a div NegZero = (if a = 0 then NaN else inf_of (\<not> a < 0))"
  "NegZero div NegZero = NaN"
  "PInf div Fin b = inf_of (b < 0)"
  "NInf div Fin b = inf_of (\<not> b < 0)"
  "Fin a div PInf = zero_of (a < 0)"
  "Fin a div NInf = zero_of (\<not> a < 0)"
  "PInf div NegZero = NInf" "NInf div NegZero = PInf"
  "NegZero div PInf = NegZero" "NegZero div NInf = Fin 0"
  "PInf div PInf = NaN" "PInf div NInf = NaN" "NInf div PInf = NaN" "NInf div NInf = NaN"
  by (simp_all add: divide_jsnum_def is_zero_def is_inf_def zero_of_def inf_of_def)

lemmas js_eval = times_Fin_Fin times_special divide_Fin_Fin divide_special minus_jsnum_def
  zero_of_def inf_of_def idx_def

section \<open>The arithmetic on finite values is the arithmetic of the reals\<close>

lemma real_of_uminus: "real_of (- x) = map_option uminus (real_of x)"
  by (cases x) simp_all

lemma real_of_plus:
  "real_of (x + y) =
    (case real_of x of None \<Rightarrow> None
     | Some a \<Rightarrow> (case real_of y of None \<Rightarrow> None | Some b \<Rightarrow> Some (a + b)))"
  by (cases x; cases y) simp_all

lemma real_of_minus:
  "real_of (x - y) =
    (case real_of x of None \<Rightarrow> None
     | Some a \<Rightarrow> (case real_of y of None \<Rightarrow> None | Some b \<Rightarrow> Some (a - b)))"
  by (simp add: minus_jsnum_def real_of_plus real_of_uminus split: option.splits)

lemma real_of_times:
  "real_of (x * y) =
    (case real_of x of None \<Rightarrow> None
     | Some a \<Rightarrow> (case real_of y of None \<Rightarrow> None | Some b \<Rightarrow> Some (a * b)))"
  by (cases x; cases y) (simp_all add: js_eval)





section \<open>Vector math: the cross product\<close>

text \<open>
  Claim C5. For vectors \<open>a\<close> and \<open>b\<close> of three finite components, \<open>cross a b\<close> is
  orthogonal to both: \<open>dot (cross a b) a\<close> and \<open>dot (cross a b) b\<close> are zero, exactly,
  in the arithmetic of the reals (the zero the script computes may be the negative one).
\<close>

theorem cross_orthogonal:
  assumes "real_of a0 = Some x0" "real_of a1 = Some x1" "real_of a2 = Some x2"
    and "real_of b0 = Some y0" "real_of b1 = Some y1" "real_of b2 = Some y2"
  shows "real_of (dot (cross [a0, a1, a2] [b0, b1, b2]) [a0, a1, a2]) = Some 0 \<and>
    real_of (dot (cross [a0, a1, a2] [b0, b1, b2]) [b0, b1, b2]) = Some 0"
  using assms
  by (simp add: dot_def cross_def idx_def real_of_plus real_of_minus real_of_times
      algebra_simps)

theorem cross_orthogonal_witness:
  "real_of (dot (cross [Fin 1, Fin 2, NegZero] [Fin (- 4), Fin 5, Fin 6])
      [Fin 1, Fin 2, NegZero]) = Some 0 \<and>
   real_of (dot (cross [Fin 1, Fin 2, NegZero] [Fin (- 4), Fin 5, Fin 6])
      [Fin (- 4), Fin 5, Fin 6]) = Some 0"
  using cross_orthogonal [of "Fin 1" 1 "Fin 2" 2 NegZero 0 "Fin (- 4)" "- 4" "Fin 5" 5 "Fin 6" 6]
  by simp

section \<open>Vector math: normalisation\<close>






lemma sqrt25: "sqrt 25 = 5"
  using real_sqrt_abs [of 5] by simp




section \<open>The view matrix of a camera on the z axis\<close>

lemma subtract_origin:
  "subtract [Fin 0, Fin 0, Fin r] [Fin 0, Fin 0, Fin 0] = [Fin 0, Fin 0, Fin r]"
  by (simp add: subtract_def js_eval)

lemma normalize_axis: "0 < r \<Longrightarrow> normalize_v [Fin 0, Fin 0, Fin r] = [Fin 0, Fin 0, Fin 1]"
  by (simp add: normalize_v_def js_eval)

lemma normalize_x: "normalize_v [Fin 1, Fin 0, Fin 0] = [Fin 1, Fin 0, Fin 0]"
  by (simp add: normalize_v_def js_eval)

lemma cross_up_z: "cross [Fin 0, Fin 1, Fin 0] [Fin 0, Fin 0, Fin 1] = [Fin 1, Fin 0, Fin 0]"
  by (simp add: cross_def js_eval)

lemma cross_z_x: "cross [Fin 0, Fin 0, Fin 1] [Fin 1, Fin 0, Fin 0] = [Fin 0, Fin 1, Fin 0]"
  by (simp add: cross_def js_eval)

lemma lookAt_front:
  assumes "0 < r"
  shows "lookAt [Fin 0, Fin 0, Fin r] [Fin 0, Fin 0, Fin 0] [Fin 0, Fin 1, Fin 0] =
    [Fin 1, Fin 0, Fin 0, Fin 0,
     Fin 0, Fin 1, Fin 0, Fin 0,
     Fin 0, Fin 0, Fin 1, Fin 0,
     NegZero, NegZero, Fin (- r), Fin 1]"
  using assms
  by (simp add: lookAt_def subtract_origin normalize_axis cross_up_z normalize_x cross_z_x
      dot_def js_eval)

text \<open>
  Claim C6. \<open>lookAt\<close> with eye (0,0,5), at (0,0,0) and up (0,1,0) returns sixteen
  elements whose rotation part is the identity and whose last four elements are
  (0,0,-5,1). The two zeros among them are negative zeros, which the script's \<open>==\<close>
  does not tell from 0.
\<close>

theorem lookAt_example:
  "lookAt [Fin 0, Fin 0, Fin 5] [Fin 0, Fin 0, Fin 0] [Fin 0, Fin 1, Fin 0] =
    [Fin 1, Fin 0, Fin 0, Fin 0,
     Fin 0, Fin 1, Fin 0, Fin 0,
     Fin 0, Fin 0, Fin 1, Fin 0,
     NegZero, NegZero, Fin (- 5), Fin 1] \<and>
   map real_of (lookAt [Fin 0, Fin 0, Fin 5] [Fin 0, Fin 0, Fin 0] [Fin 0, Fin 1, Fin 0]) =
    [Some 1, Some 0, Some 0, Some 0,
     Some 0, Some 1, Some 0, Some 0,
     Some 0, Some 0, Some 1, Some 0,
     Some 0, Some 0, Some (- 5), Some 1]"
  using lookAt_front [of 5] by simp

section \<open>The orthographic projection of the unit box\<close>

lemma ortho_unit:
  "ortho (Fin (- 1)) (Fin 1) (Fin (- 1)) (Fin 1) (Fin (- 10)) (Fin 10) =
    [Fin 1, Fin 0, Fin 0, Fin 0,
     Fin 0, Fin 1, Fin 0, Fin 0,
     Fin 0, Fin 0, Fin (- 1 / 10), Fin 0,
     NegZero, NegZero, NegZero, Fin 1]"
  by (simp add: ortho_def js_eval)

text \<open>
  Claim C1, as stated, fails: \<open>ortho(-1,1,-1,1,-10,10)\<close> does not map (1,1,10,1) to
  (1,1,1,1). The matrix negates the depth, as the projection of a camera looking down
  the negative z axis does.
\<close>

theorem ortho_unit_counterexample:
  "map real_of (homogeneous_divide
      (mat_vec (ortho (Fin (- 1)) (Fin 1) (Fin (- 1)) (Fin 1) (Fin (- 10)) (Fin 10))
        [Fin 1, Fin 1, Fin 10, Fin 1]))
    \<noteq> [Some 1, Some 1, Some 1, Some 1]"
  by (simp add: ortho_unit mat_vec_def homogeneous_divide_def js_eval)

text \<open>
  Claim C1, amended. \<open>ortho(-1,1,-1,1,-10,10)\<close> maps (0,0,0,1) to (0,0,0,1) and
  (1,1,10,1) to (1,1,-1,1) after the homogeneous divide; the point it maps to
  (1,1,1,1) is (1,1,-10,1).
\<close>

theorem ortho_unit_points:
  "homogeneous_divide
      (mat_vec (ortho (Fin (- 1)) (Fin 1) (Fin (- 1)) (Fin 1) (Fin (- 10)) (Fin 10))
        [Fin 0, Fin 0, Fin 0, Fin 1]) = [Fin 0, Fin 0, Fin 0, Fin 1] \<and>
   homogeneous_divide
      (mat_vec (ortho (Fin (- 1)) (Fin 1) (Fin (- 1)) (Fin 1) (Fin (- 10)) (Fin 10))
        [Fin 1, Fin 1, Fin 10, Fin 1]) = [Fin 1, Fin 1, Fin (- 1), Fin 1] \<and>
   homogeneous_divide
      (mat_vec (ortho (Fin (- 1)) (Fin 1) (Fin (- 1)) (Fin 1) (Fin (- 10)) (Fin 10))
        [Fin 1, Fin 1, Fin (- 10), Fin 1]) = [Fin 1, Fin 1, Fin 1, Fin 1]"
  by (simp add: ortho_unit mat_vec_def homogeneous_divide_def js_eval)

section \<open>What render and the input handler do to the state\<close>

lemma uniform_value_append:
  "uniform_value u (xs @ ys) =
    (case uniform_value u ys of Some m \<Rightarrow> Some m | None \<Rightarrow> uniform_value u xs)"
  by (induction xs) (simp_all split: option.splits)

lemma render_uniforms:
  "uniform_value UModelViewMatrix (gl (render s)) = Some (modelViewMatrix s)"
  "uniform_value UProjectionMatrix (gl (render s)) = Some (projectionMatrix s)"
  by (simp_all add: render_def uniform_value_append)

lemma render_camera:
  "zoom (render s) = zoom s" "eye (render s) = eye s"
  "at_v (render s) = at_v s" "up (render s) = up s"
  by (simp_all add: render_def)

lemma oninput_camera:
  "zoom (oninput parseFloat v s) = parseFloat v"
  "eye (oninput parseFloat v s) = array_set (eye s) 2 (parseFloat v)"
  "at_v (oninput parseFloat v s) = at_v s"
  "up (oninput parseFloat v s) = up s"
  by (simp_all add: oninput_def Let_def render_camera)

lemma reachable_camera:
  "reachable s \<Longrightarrow>
    eye s = [Fin 0, Fin 0, zoom s] \<and> at_v s = [Fin 0, Fin 0, Fin 0] \<and>
    up s = [Fin 0, Fin 1, Fin 0]"
proof (induction rule: reachable.induct)
  case reachable_loaded
  show ?case by (simp add: loaded_def render_camera initial_def)
next
  case (reachable_input s parseFloat v)
  then show ?case by (simp add: oninput_camera array_set_def)
qed

section \<open>Zoom zero\<close>

lemma ortho_zero:
  "ortho (- Fin 0) (Fin 0) (- Fin 0) (Fin 0) (Fin (- 10)) (Fin 10) =
    [PInf, Fin 0, Fin 0, Fin 0,
     Fin 0, PInf, Fin 0, Fin 0,
     Fin 0, Fin 0, Fin (- 1 / 10), Fin 0,
     NaN, NaN, NegZero, Fin 1]"
  by (simp add: ortho_def js_eval)

text \<open>
  Claim C7. When the handler parses the slider's value to 0, whatever the state before
  and with no check on the way, the projection matrix that render uploads has the entries
  infinity (twice, from 2 / 0) and not-a-number (twice, from 0 / 0).
\<close>

theorem zoom_zero_projection:
  "uniform_value UProjectionMatrix (gl (oninput (\<lambda>_. Fin 0) v s)) =
    Some [PInf, Fin 0, Fin 0, Fin 0,
          Fin 0, PInf, Fin 0, Fin 0,
          Fin 0, Fin 0, Fin (- 1 / 10), Fin 0,
          NaN, NaN, NegZero, Fin 1]"
proof -
  have "uniform_value UProjectionMatrix (gl (oninput (\<lambda>_. Fin 0) v s)) =
      Some (ortho (- Fin 0) (Fin 0) (- Fin 0) (Fin 0) (Fin (- 10)) (Fin 10))"
    by (simp add: oninput_def Let_def render_uniforms projectionMatrix_def)
  then show ?thesis by (simp only: ortho_zero)
qed

section \<open>The projection that render builds\<close>

lemma real_of_zero_of: "real_of (zero_of b) = Some 0"
  by (simp add: zero_of_def)

lemma ortho_zoom:
  assumes "r \<noteq> 0"
  shows "ortho (- Fin r) (Fin r) (- Fin r) (Fin r) (Fin (- 10)) (Fin 10) =
    [Fin (1 / r), Fin 0, Fin 0, Fin 0,
     Fin 0, Fin (1 / r), Fin 0, Fin 0,
     Fin 0, Fin 0, Fin (- 1 / 10), Fin 0,
     zero_of (0 < r), zero_of (0 < r), NegZero, Fin 1]"
  using assms by (simp add: ortho_def js_eval not_less)

text \<open>
  Claim C2, as stated, fails: the volume is not the cube with all six bounds at plus and
  minus zoom. At the initial zoom 5 the matrix render uploads differs from
  \<open>ortho(-5,5,-5,5,-5,5)\<close>, because the near and far bounds are the constants -10 and 10.
\<close>

theorem projection_counterexample:
  "uniform_value UProjectionMatrix (gl (render initial)) \<noteq>
    Some (ortho (- zoom initial) (zoom initial) (- zoom initial) (zoom initial)
      (- zoom initial) (zoom initial))"
  by (simp add: render_uniforms projectionMatrix_def initial_def ortho_def js_eval)

text \<open>
  Claim C2, amended. For every zoom value, each invocation of render recomputes the
  projection matrix as \<open>ortho(-zoom, zoom, -zoom, zoom, -10, 10)\<close>: the left, right,
  bottom and top bounds are at plus and minus zoom, the near and far bounds are fixed
  at -10 and 10. For a finite nonzero zoom \<open>r\<close> it sends the point (x,y,z,1) to
  (x/r, y/r, -z/10, 1).
\<close>

theorem render_projection:
  "uniform_value UProjectionMatrix (gl (render s)) =
      Some (ortho (- zoom s) (zoom s) (- zoom s) (zoom s) (Fin (- 10)) (Fin 10)) \<and>
   (\<forall>r x y z. zoom s = Fin r \<and> r \<noteq> 0 \<longrightarrow>
      map real_of (mat_vec (ortho (- zoom s) (zoom s) (- zoom s) (zoom s) (Fin (- 10)) (Fin 10))
        [Fin x, Fin y, Fin z, Fin 1]) =
      [Some (x / r), Some (y / r), Some (- z / 10), Some 1])"
proof (intro conjI allI impI)
  show "uniform_value UProjectionMatrix (gl (render s)) =
      Some (ortho (- zoom s) (zoom s) (- zoom s) (zoom s) (Fin (- 10)) (Fin 10))"
    by (simp add: render_uniforms projectionMatrix_def)
next
  fix r x y z
  assume "zoom s = Fin r \<and> r \<noteq> 0"
  then have z: "zoom s = Fin r" and r: "r \<noteq> 0" by simp_all
  show "map real_of (mat_vec (ortho (- zoom s) (zoom s) (- zoom s) (zoom s) (Fin (- 10)) (Fin 10))
        [Fin x, Fin y, Fin z, Fin 1]) =
      [Some (x / r), Some (y / r), Some (- z / 10), Some 1]"
    unfolding z ortho_zoom [OF r]
    by (simp add: mat_vec_def idx_def real_of_plus real_of_times real_of_zero_of)
qed

theorem render_projection_witness:
  "uniform_value UProjectionMatrix (gl (render initial)) =
      Some (ortho (- Fin 5) (Fin 5) (- Fin 5) (Fin 5) (Fin (- 10)) (Fin 10)) \<and>
   map real_of (mat_vec (ortho (- Fin 5) (Fin 5) (- Fin 5) (Fin 5) (Fin (- 10)) (Fin 10))
        [Fin 5, Fin 5, Fin 0, Fin 1]) =
      [Some 1, Some 1, Some 0, Some 1]"
  using render_projection [of initial, THEN conjunct1]
    render_projection [of initial, THEN conjunct2, rule_format, of 5 5 5 0]
  by (simp add: initial_def)

section \<open>The view matrix that render builds\<close>

lemma lookAt_origin:
  "lookAt [Fin 0, Fin 0, Fin 0] [Fin 0, Fin 0, Fin 0] [Fin 0, Fin 1, Fin 0] =
    [NaN, NaN, NaN, Fin 0,
     NaN, NaN, NaN, Fin 0,
     NaN, NaN, NaN, Fin 0,
     NaN, NaN, NaN, Fin 1]"
proof -
  have z: "normalize_v (subtract [Fin 0, Fin 0, Fin 0] [Fin 0, Fin 0, Fin 0]) = [NaN, NaN, NaN]"
    by (simp add: subtract_def normalize_v_def js_eval)
  have c: "cross [Fin 0, Fin 1, Fin 0] [NaN, NaN, NaN] = [NaN, NaN, NaN]"
    by (simp add: cross_def js_eval)
  have x: "normalize_v [NaN, NaN, NaN] = [NaN, NaN, NaN]"
    by (simp add: normalize_v_def js_eval)
  have y: "cross [NaN, NaN, NaN] [NaN, NaN, NaN] = [NaN, NaN, NaN]"
    by (simp add: cross_def js_eval)
  show ?thesis
    by (simp add: lookAt_def z c x y dot_def js_eval)
qed

lemma lookAt_behind:
  "lookAt [Fin 0, Fin 0, Fin (- 5)] [Fin 0, Fin 0, Fin 0] [Fin 0, Fin 1, Fin 0] =
    [Fin (- 1), Fin 0, Fin 0, Fin 0,
     Fin 0, Fin 1, Fin 0, Fin 0,
     Fin 0, Fin 0, Fin (- 1), Fin 0,
     NegZero, NegZero, Fin (- 5), Fin 1]"
proof -
  have z: "normalize_v (subtract [Fin 0, Fin 0, Fin (- 5)] [Fin 0, Fin 0, Fin 0]) =
      [Fin 0, Fin 0, Fin (- 1)]"
    by (simp add: subtract_def normalize_v_def js_eval sqrt25)
  have c: "cross [Fin 0, Fin 1, Fin 0] [Fin 0, Fin 0, Fin (- 1)] = [Fin (- 1), Fin 0, Fin 0]"
    by (simp add: cross_def js_eval)
  have x: "normalize_v [Fin (- 1), Fin 0, Fin 0] = [Fin (- 1), Fin 0, Fin 0]"
    by (simp add: normalize_v_def js_eval)
  have y: "cross [Fin 0, Fin 0, Fin (- 1)] [Fin (- 1), Fin 0, Fin 0] = [Fin 0, Fin 1, Fin 0]"
    by (simp add: cross_def js_eval)
  show ?thesis
    by (simp add: lookAt_def z c x y dot_def js_eval)
qed

lemma oninput_reachable_state:
  assumes "reachable s"
  shows "eye (oninput parseFloat v s) = [Fin 0, Fin 0, parseFloat v]"
    and "at_v (oninput parseFloat v s) = [Fin 0, Fin 0, Fin 0]"
    and "up (oninput parseFloat v s) = [Fin 0, Fin 1, Fin 0]"
    and "uniform_value UModelViewMatrix (gl (oninput parseFloat v s)) =
      Some (lookAt [Fin 0, Fin 0, parseFloat v] [Fin 0, Fin 0, Fin 0] [Fin 0, Fin 1, Fin 0])"
  using reachable_camera [OF assms]
  by (simp_all add: oninput_def Let_def render_camera render_uniforms modelViewMatrix_def
      array_set_def)

lemma cross_up_eye:
  "cross [Fin 0, Fin 1, Fin 0] (subtract [Fin 0, Fin 0, Fin r] [Fin 0, Fin 0, Fin 0]) =
    [Fin r, Fin 0, Fin 0]"
  by (simp add: subtract_origin cross_def js_eval)

text \<open>
  Claim C3, as stated, fails. When the handler sets zoom to 0, the eye is the point it
  looks at: every basis entry of the view matrix is not-a-number and the cross product of
  up and eye - at is the zero vector. When it sets zoom to -5, the basis is
  ((-1,0,0),(0,1,0),(0,0,-1)), not the identity. When it sets zoom to Infinity, the cross
  product of up and eye - at has a component that is not-a-number.
\<close>

theorem view_basis_counterexample:
  "uniform_value UModelViewMatrix (gl (oninput (\<lambda>_. Fin 0) ''0'' loaded)) =
    Some [NaN, NaN, NaN, Fin 0,
          NaN, NaN, NaN, Fin 0,
          NaN, NaN, NaN, Fin 0,
          NaN, NaN, NaN, Fin 1] \<and>
   cross (up (oninput (\<lambda>_. Fin 0) ''0'' loaded))
     (subtract (eye (oninput (\<lambda>_. Fin 0) ''0'' loaded))
       (at_v (oninput (\<lambda>_. Fin 0) ''0'' loaded))) = [Fin 0, Fin 0, Fin 0] \<and>
   uniform_value UModelViewMatrix (gl (oninput (\<lambda>_. Fin (- 5)) ''-5'' loaded)) =
    Some [Fin (- 1), Fin 0, Fin 0, Fin 0,
          Fin 0, Fin 1, Fin 0, Fin 0,
          Fin 0, Fin 0, Fin (- 1), Fin 0,
          NegZero, NegZero, Fin (- 5), Fin 1] \<and>
   cross (up (oninput (\<lambda>_. PInf) ''Infinity'' loaded))
     (subtract (eye (oninput (\<lambda>_. PInf) ''Infinity'' loaded))
       (at_v (oninput (\<lambda>_. PInf) ''Infinity'' loaded))) = [PInf, NaN, Fin 0]"
  by (simp add: oninput_reachable_state [OF reachable.reachable_loaded] lookAt_origin
      lookAt_behind subtract_def cross_def js_eval)

lemma reachable_view:
  "reachable s \<Longrightarrow> uniform_value UModelViewMatrix (gl s) = Some (modelViewMatrix s)"
proof (induction rule: reachable.induct)
  case reachable_loaded
  show ?case
    by (simp add: loaded_def render_uniforms modelViewMatrix_def render_camera)
next
  case (reachable_input s parseFloat v)
  show ?case
    by (simp add: oninput_def Let_def render_uniforms modelViewMatrix_def render_camera)
qed

text \<open>
  Claim C3, amended. A reachable state is the loaded page or the state after an input
  event, where zoom is the value the handler parsed. In every reachable state with a finite
  nonzero zoom, positive or negative, up is not parallel to eye - at: their cross
  product is (zoom,0,0). In every reachable state whose zoom is greater than 0 and has its
  square in the normal range of doubles (zoom from \<^verbatim>\<open>2^-511\<close> up to, not including,
  \<^verbatim>\<open>2^512\<close>), the rotation basis of the view matrix that render has uploaded is the
  identity basis, and every element of the matrix but the z translation, element 14, is
  the same for all these zoom values. Element 14 is the one the array narrows to single
  precision from -zoom; the theorem leaves its value out.
\<close>

theorem view_basis_constant:
  assumes "reachable s" and "zoom s = Fin r"
  shows "(r \<noteq> 0 \<longrightarrow>
      cross (up s) (subtract (eye s) (at_v s)) = [Fin r, Fin 0, Fin 0] \<and> \<not> is_zero (Fin r)) \<and>
    (1 / 2 ^ 511 \<le> r \<and> r < 2 ^ 512 \<longrightarrow>
      map_option (take 14) (uniform_value UModelViewMatrix (gl s)) =
        Some [Fin 1, Fin 0, Fin 0, Fin 0,
              Fin 0, Fin 1, Fin 0, Fin 0,
              Fin 0, Fin 0, Fin 1, Fin 0,
              NegZero, NegZero] \<and>
      map_option (drop 15) (uniform_value UModelViewMatrix (gl s)) = Some [Fin 1])"
proof (intro conjI impI)
  assume "r \<noteq> 0"
  then show "\<not> is_zero (Fin r)" by (simp add: is_zero_def)
next
  show "cross (up s) (subtract (eye s) (at_v s)) = [Fin r, Fin 0, Fin 0]"
    using reachable_camera [OF assms(1)] assms(2) by (simp add: cross_up_eye)
next
  assume range: "1 / 2 ^ 511 \<le> r \<and> r < 2 ^ 512"
  have "(0::real) < 1 / 2 ^ 511" by simp
  with range have pos: "0 < r" by linarith
  have m: "uniform_value UModelViewMatrix (gl s) =
      Some [Fin 1, Fin 0, Fin 0, Fin 0,
            Fin 0, Fin 1, Fin 0, Fin 0,
            Fin 0, Fin 0, Fin 1, Fin 0,
            NegZero, NegZero, Fin (- r), Fin 1]"
    using reachable_camera [OF assms(1)] assms(2) pos
    by (simp add: reachable_view [OF assms(1)] modelViewMatrix_def lookAt_front)
  show "map_option (take 14) (uniform_value UModelViewMatrix (gl s)) =
        Some [Fin 1, Fin 0, Fin 0, Fin 0,
              Fin 0, Fin 1, Fin 0, Fin 0,
              Fin 0, Fin 0, Fin 1, Fin 0,
              NegZero, NegZero]"
    unfolding m by simp
  show "map_option (drop 15) (uniform_value UModelViewMatrix (gl s)) = Some [Fin 1]"
    unfolding m by simp
qed

theorem view_basis_constant_witness:
  "cross (up (oninput (\<lambda>_. Fin 2) ''2'' loaded))
      (subtract (eye (oninput (\<lambda>_. Fin 2) ''2'' loaded))
        (at_v (oninput (\<lambda>_. Fin 2) ''2'' loaded))) =
      [Fin 2, Fin 0, Fin 0] \<and>
   map_option (take 14) (uniform_value UModelViewMatrix (gl (oninput (\<lambda>_. Fin 2) ''2'' loaded))) =
      Some [Fin 1, Fin 0, Fin 0, Fin 0,
            Fin 0, Fin 1, Fin 0, Fin 0,
            Fin 0, Fin 0, Fin 1, Fin 0,
            NegZero, NegZero] \<and>
   map_option (drop 15) (uniform_value UModelViewMatrix (gl (oninput (\<lambda>_. Fin 2) ''2'' loaded))) =
      Some [Fin 1]"
proof -
  have reach: "reachable (oninput (\<lambda>_. Fin 2) ''2'' loaded)"
    by (intro reachable.intros)
  have z: "zoom (oninput (\<lambda>_. Fin 2) ''2'' loaded) = Fin 2"
    by (simp add: oninput_camera)
  have r: "(1::real) / 2 ^ 511 \<le> 2 \<and> (2::real) < 2 ^ 512" by simp
  have nz: "(2::real) \<noteq> 0" by simp
  note t = view_basis_constant [OF reach z]
  from t nz have a: "cross (up (oninput (\<lambda>_. Fin 2) ''2'' loaded))
      (subtract (eye (oninput (\<lambda>_. Fin 2) ''2'' loaded))
        (at_v (oninput (\<lambda>_. Fin 2) ''2'' loaded))) = [Fin 2, Fin 0, Fin 0]"
    by blast
  from t r have b: "map_option (take 14)
        (uniform_value UModelViewMatrix (gl (oninput (\<lambda>_. Fin 2) ''2'' loaded))) =
      Some [Fin 1, Fin 0, Fin 0, Fin 0,
            Fin 0, Fin 1, Fin 0, Fin 0,
            Fin 0, Fin 0, Fin 1, Fin 0,
            NegZero, NegZero] \<and>
   map_option (drop 15) (uniform_value UModelViewMatrix (gl (oninput (\<lambda>_. Fin 2) ''2'' loaded))) =
      Some [Fin 1]"
    by blast
  from a b show ?thesis by blast
qed

section \<open>The frame of the input handler\<close>

text \<open>
  Claim C8. On an input event in a reachable state the handler assigns the parsed value to
  zoom, stores it in element 2 of eye and leaves elements 0 and 1 of eye, at and up as they
  were; what it returns is render applied to the state so updated. Render, the only other
  operation, changes neither zoom nor eye.
\<close>

theorem oninput_frame:
  assumes "reachable s"
  shows "zoom (oninput parseFloat v s) = parseFloat v \<and>
    eye (oninput parseFloat v s) = [idx (eye s) 0, idx (eye s) 1, parseFloat v] \<and>
    at_v (oninput parseFloat v s) = at_v s \<and>
    up (oninput parseFloat v s) = up s \<and>
    oninput parseFloat v s =
      render (s\<lparr>zoom := parseFloat v, eye := [idx (eye s) 0, idx (eye s) 1, parseFloat v]\<rparr>) \<and>
    zoom (render s) = zoom s \<and> eye (render s) = eye s"
  using reachable_camera [OF assms]
  by (simp add: oninput_def Let_def render_camera array_set_def idx_def)

theorem oninput_frame_witness:
  "zoom (oninput (\<lambda>_. Fin 7) ''7'' loaded) = Fin 7 \<and>
    eye (oninput (\<lambda>_. Fin 7) ''7'' loaded) = [Fin 0, Fin 0, Fin 7] \<and>
    at_v (oninput (\<lambda>_. Fin 7) ''7'' loaded) = [Fin 0, Fin 0, Fin 0] \<and>
    up (oninput (\<lambda>_. Fin 7) ''7'' loaded) = [Fin 0, Fin 1, Fin 0] \<and>
    zoom (render loaded) = Fin 5 \<and> eye (render loaded) = [Fin 0, Fin 0, Fin 5]"
  using oninput_frame [OF reachable.reachable_loaded, of "\<lambda>_. Fin 7" "''7''"]
  by (simp add: loaded_def render_camera initial_def idx_def)

section \<open>Render is idempotent\<close>

text \<open>
  Claim C9. Render leaves zoom, eye, at and up unchanged; a second render uploads the same
  view and projection matrices as the first; and the matrices uploaded depend on zoom, eye,
  at and up alone: two states that agree on these upload the same matrices, whatever was
  drawn before.
\<close>

theorem render_idempotent:
  "zoom (render s) = zoom s \<and> eye (render s) = eye s \<and>
   at_v (render s) = at_v s \<and> up (render s) = up s \<and>
   uniform_value UModelViewMatrix (gl (render (render s))) =
     uniform_value UModelViewMatrix (gl (render s)) \<and>
   uniform_value UProjectionMatrix (gl (render (render s))) =
     uniform_value UProjectionMatrix (gl (render s)) \<and>
   (\<forall>t. zoom t = zoom s \<and> eye t = eye s \<and> at_v t = at_v s \<and> up t = up s \<longrightarrow>
     uniform_value UModelViewMatrix (gl (render t)) =
       uniform_value UModelViewMatrix (gl (render s)) \<and>
     uniform_value UProjectionMatrix (gl (render t)) =
       uniform_value UProjectionMatrix (gl (render s)))"
  by (simp add: render_camera render_uniforms modelViewMatrix_def projectionMatrix_def)

theorem render_idempotent_witness:
  "zoom (render initial) = zoom initial \<and>
   uniform_value UModelViewMatrix (gl (render (initial\<lparr>gl := [Clear_COLOR_BUFFER_BIT]\<rparr>))) =
     uniform_value UModelViewMatrix (gl (render initial)) \<and>
   uniform_value UProjectionMatrix (gl (render (initial\<lparr>gl := [Clear_COLOR_BUFFER_BIT]\<rparr>))) =
     uniform_value UProjectionMatrix (gl (render initial))"
proof -
  let ?t = "initial\<lparr>gl := [Clear_COLOR_BUFFER_BIT]\<rparr>"
  have same: "zoom ?t = zoom initial \<and> eye ?t = eye initial \<and> at_v ?t = at_v initial \<and>
      up ?t = up initial"
    by simp
  note all = render_idempotent [of initial]
  from all have z: "zoom (render initial) = zoom initial"
    by (rule conjunct1)
  from all have "\<forall>t. zoom t = zoom initial \<and> eye t = eye initial \<and> at_v t = at_v initial \<and>
      up t = up initial \<longrightarrow>
     uniform_value UModelViewMatrix (gl (render t)) =
       uniform_value UModelViewMatrix (gl (render initial)) \<and>
     uniform_value UProjectionMatrix (gl (render t)) =
       uniform_value UProjectionMatrix (gl (render initial))"
    by (elim conjE)
  with same have "uniform_value UModelViewMatrix (gl (render ?t)) =
       uniform_value UModelViewMatrix (gl (render initial)) \<and>
     uniform_value UProjectionMatrix (gl (render ?t)) =
       uniform_value UProjectionMatrix (gl (render initial))"
    by blast
  with z show ?thesis by (intro conjI) (elim conjE, assumption)+
qed

section \<open>The view matrix is affine\<close>

lemma idx_fourth_row:
  "idx [m0, m1, m2, m3, m4, m5, m6, m7, m8, m9, m10, m11, m12, m13, m14, m15] 3 = m3"
  "idx [m0, m1, m2, m3, m4, m5, m6, m7, m8, m9, m10, m11, m12, m13, m14, m15] 7 = m7"
  "idx [m0, m1, m2, m3, m4, m5, m6, m7, m8, m9, m10, m11, m12, m13, m14, m15] 11 = m11"
  "idx [m0, m1, m2, m3, m4, m5, m6, m7, m8, m9, m10, m11, m12, m13, m14, m15] 15 = m15"
  by (simp_all add: idx_def)

lemma idx_vec4:
  "idx [a, b, c, d] 0 = a" "idx [a, b, c, d] (Suc 0) = b" "idx [a, b, c, d] 2 = c"
  "idx [a, b, c, d] 3 = d"
  by (simp_all add: idx_def)

text \<open>
  Claim C10. For all arrays eye, at and up, \<open>lookAt\<close> returns sixteen elements of which
  those at indices 3, 7 and 11 are exactly 0 and the one at index 15 is exactly 1, so the
  fourth component of the product with a point of finite coordinates is the point's own
  fourth component.
\<close>

theorem lookAt_affine:
  "length (lookAt eye_p at_p up_p) = 16 \<and>
   idx (lookAt eye_p at_p up_p) 3 = Fin 0 \<and>
   idx (lookAt eye_p at_p up_p) 7 = Fin 0 \<and>
   idx (lookAt eye_p at_p up_p) 11 = Fin 0 \<and>
   idx (lookAt eye_p at_p up_p) 15 = Fin 1 \<and>
   (\<forall>x y z w. real_of x \<noteq> None \<and> real_of y \<noteq> None \<and> real_of z \<noteq> None \<longrightarrow>
      real_of (idx (mat_vec (lookAt eye_p at_p up_p) [x, y, z, w]) 3) = real_of w)"
proof -
  have l: "length (lookAt eye_p at_p up_p) = 16"
    by (simp add: lookAt_def Let_def)
  have e: "idx (lookAt eye_p at_p up_p) 3 = Fin 0" "idx (lookAt eye_p at_p up_p) 7 = Fin 0"
    "idx (lookAt eye_p at_p up_p) 11 = Fin 0" "idx (lookAt eye_p at_p up_p) 15 = Fin 1"
    by (simp_all add: lookAt_def Let_def idx_fourth_row)
  have w: "real_of (idx (mat_vec (lookAt eye_p at_p up_p) [x, y, z, w]) 3) = real_of w"
    if "real_of x \<noteq> None \<and> real_of y \<noteq> None \<and> real_of z \<noteq> None" for x y z w
  proof -
    have "idx (mat_vec (lookAt eye_p at_p up_p) [x, y, z, w]) 3 =
        Fin 0 * x + Fin 0 * y + Fin 0 * z + Fin 1 * w"
      by (simp add: mat_vec_def e idx_vec4)
    with that show ?thesis
      by (auto simp: real_of_plus real_of_times split: option.splits)
  qed
  from l e w show ?thesis by blast
qed

theorem lookAt_affine_witness:
  "idx (lookAt [Fin 1, Fin 2, Fin 3] [Fin 0, Fin 0, Fin 0] [Fin 0, Fin 1, Fin 0]) 3 = Fin 0 \<and>
   idx (lookAt [Fin 1, Fin 2, Fin 3] [Fin 0, Fin 0, Fin 0] [Fin 0, Fin 1, Fin 0]) 15 = Fin 1 \<and>
   real_of (idx (mat_vec (lookAt [Fin 1, Fin 2, Fin 3] [Fin 0, Fin 0, Fin 0] [Fin 0, Fin 1, Fin 0])
      [Fin 4, Fin 5, Fin 6, Fin 1]) 3) = Some 1"
  using lookAt_affine [of "[Fin 1, Fin 2, Fin 3]" "[Fin 0, Fin 0, Fin 0]" "[Fin 0, Fin 1, Fin 0]"]
    lookAt_affine [of "[Fin 1, Fin 2, Fin 3]" "[Fin 0, Fin 0, Fin 0]" "[Fin 0, Fin 1, Fin 0]",
      THEN conjunct2, THEN conjunct2, THEN conjunct2, THEN conjunct2, THEN conjunct2,
      rule_format, of "Fin 4" "Fin 5" "Fin 6" "Fin 1"]
  by simp

end
